theory Spec2Isabelle
  imports Complex_Main "HOL-Library.Log_Nat"
begin

section \<open>Numbers of the script\<close>

text \<open>
  The script \<^verbatim>\<open>vlamax.py\<close> computes with Python floats and NumPy \<^verbatim>\<open>float64\<close> arrays.
  Every finite float is read here as the real number it stands for.  The arithmetic is
  exact, except where a definition rounds with \<open>fl64\<close> below.  The one way the script
  leaves the finite numbers is a division by zero, which NumPy answers with \<^verbatim>\<open>nan\<close> or
  an infinity (and a warning) instead of raising; \<open>npfloat\<close> keeps these outcomes apart.
\<close>

datatype npfloat = Fin real | PInf | NInf | NaN

text \<open>
  \<^verbatim>\<open>a / b\<close> for a NumPy scalar \<open>a\<close>.  A zero divisor of the script is always the
  positive zero \<^verbatim>\<open>c * 0\<close> with \<open>c > 0\<close>, so the sign of the quotient is that of \<open>a\<close>.
\<close>

definition np_div :: "real \<Rightarrow> real \<Rightarrow> npfloat" where
  "np_div a b =
     (if b \<noteq> 0 then Fin (a / b)
      else if a = 0 then NaN
      else if 0 < a then PInf else NInf)"

text \<open>\<^verbatim>\<open>c + k * v\<close> for finite constants \<open>c\<close> and \<open>k\<close> and a quotient \<open>v\<close>.\<close>

fun np_affine :: "real \<Rightarrow> real \<Rightarrow> npfloat \<Rightarrow> npfloat" where
  "np_affine c k (Fin r) = Fin (c + k * r)"
| "np_affine c k PInf = (if 0 < k then PInf else if k < 0 then NInf else NaN)"
| "np_affine c k NInf = (if 0 < k then NInf else if k < 0 then PInf else NaN)"
| "np_affine c k NaN = NaN"


fun is_fin :: "npfloat \<Rightarrow> bool" where
  "is_fin (Fin r) = True"
| "is_fin v = False"

text \<open>
  \<^verbatim>\<open>np.linspace(start, stop, num)\<close>: \<open>num\<close> evenly spaced samples with both end points.
  The script calls it with 15 and with 11 samples; for a single sample the step is
  not used and the result is \<open>[start]\<close>, as in NumPy.
\<close>

definition linspace :: "real \<Rightarrow> real \<Rightarrow> nat \<Rightarrow> real list" where
  "linspace start stop num =
     map (\<lambda>i. start + real i * ((stop - start) / real (num - 1))) [0..<num]"

text \<open>\<^verbatim>\<open>np.arange(start, stop, step)\<close> on integers, for a positive step.\<close>

definition arange :: "int \<Rightarrow> int \<Rightarrow> int \<Rightarrow> int list" where
  "arange start stop step =
     map (\<lambda>i. start + int i * step) [0..<nat ((stop - start + step - 1) div step)]"

text \<open>
  The conversion of a float to \<^verbatim>\<open>int64\<close> that NumPy applies when a float is stored in
  an integer array: the fraction is dropped (rounding towards zero); a value outside
  the 64-bit range gives the smallest \<^verbatim>\<open>int64\<close>.
\<close>

definition float_to_int64 :: "real \<Rightarrow> int" where
  "float_to_int64 x =
     (let t = (if 0 \<le> x then \<lfloor>x\<rfloor> else \<lceil>x\<rceil>)
      in if - (2 ^ 63) \<le> t \<and> t < 2 ^ 63 then t else - (2 ^ 63))"

text \<open>
  \<^verbatim>\<open>np.full_like(a, fill_value)\<close> for an integer array \<open>a\<close>: the result has the shape
  and the element type of \<open>a\<close>, so the fill value is converted to \<^verbatim>\<open>int64\<close>.
\<close>

definition full_like :: "int list \<Rightarrow> real \<Rightarrow> int list" where
  "full_like a fill_value = map (\<lambda>_. float_to_int64 fill_value) a"

text \<open>\<^verbatim>\<open>np.clip(x, a_min, a_max)\<close> on one element.\<close>

definition np_clip :: "real \<Rightarrow> real \<Rightarrow> real \<Rightarrow> real" where
  "np_clip x a_min a_max = min (max x a_min) a_max"

text \<open>
  Rounding.  Where a result depends on the rounding of the script's arithmetic, a
  finite \<^verbatim>\<open>float64\<close> operation is the exact operation followed by rounding to the
  nearest \<^verbatim>\<open>float64\<close>, ties to the even significand.  A finite \<^verbatim>\<open>float64\<close> is
  \<open>m * 2 ^ e\<close> with \<open>\<bar>m\<bar> < 2 ^ 53\<close> and \<open>- 1074 \<le> e\<close>; \<open>ulp_exponent x\<close> is the
  exponent \<open>e\<close> of the grid around \<open>x\<close> (\<open>bitlen n\<close> is the number of binary digits of
  \<open>n\<close>).  Overflow to an infinity, at magnitudes from \<open>2 ^ 1024\<close> on, is not modelled.
\<close>

definition round_half_even :: "real \<Rightarrow> int" where
  "round_half_even y =
     (let f = \<lfloor>y\<rfloor>; d = y - of_int f
      in if d < 1 / 2 then f else if 1 / 2 < d then f + 1 else if even f then f else f + 1)"

definition ulp_exponent :: "real \<Rightarrow> int" where
  "ulp_exponent x = max (- 1074) (bitlen \<lfloor>\<bar>x\<bar> * 2 ^ 1074\<rfloor> - 1127)"

definition fl64 :: "real \<Rightarrow> real" where
  "fl64 x = of_int (round_half_even (x / 2 powi ulp_exponent x)) * 2 powi ulp_exponent x"

section \<open>The inputs and their validation\<close>

text \<open>
  The five numbers of the form.  \<^verbatim>\<open>vo2max\<close> is a float (its \<^verbatim>\<open>min_value\<close> is \<^verbatim>\<open>0.0\<close>),
  the other four are integers (their \<^verbatim>\<open>min_value\<close> is \<^verbatim>\<open>0\<close>).
\<close>

record profile =
  vo2max :: real
  lt1_hr :: int
  lt2_hr :: int
  max_hr :: int
  sprint_power :: int

datatype banner = St_error string | St_success string

text \<open>
  Lines 24 to 32: the validation block.  It only writes a banner to the page;
  it neither raises nor stops the script.
\<close>

definition validation :: "bool \<Rightarrow> profile \<Rightarrow> banner list" where
  "validation submitted p =
     (if submitted then
        (if vo2max p \<le> 0 \<or> lt1_hr p \<le> 0 \<or> lt2_hr p \<le> 0 \<or> max_hr p \<le> 0 \<or> sprint_power p \<le> 0
         then [St_error ''Please enter all required fields with valid (non-zero) values.'']
         else if \<not> (lt1_hr p < lt2_hr p \<and> lt2_hr p < max_hr p)
         then [St_error ''Ensure that LT1 HR < LT2 HR < Max HR for consistency.'']
         else [St_success ''Inputs look good! Generating analysis...''])
      else [])"

text \<open>The inputs that the validation block accepts.\<close>

definition valid_profile :: "profile \<Rightarrow> bool" where
  "valid_profile p =
     (0 < vo2max p \<and> 0 < lt1_hr p \<and> 0 < lt2_hr p \<and> 0 < max_hr p \<and> 0 < sprint_power p
      \<and> lt1_hr p < lt2_hr p \<and> lt2_hr p < max_hr p)"

section \<open>Lactate curve\<close>

text \<open>
  Lines 35 to 45, in exact arithmetic.  \<open>S\<close> is \<^verbatim>\<open>sprint_power\<close>, \<open>p\<close> one element of
  \<^verbatim>\<open>intensities\<close>.  The same lines with every operation rounded follow in a section of
  their own.
\<close>

definition intensities :: "real \<Rightarrow> real list" where
  "intensities S = map (\<lambda>x. x * S) (linspace 0.4 1.1 15)"

definition slow_rise :: "real \<Rightarrow> real \<Rightarrow> npfloat" where
  "slow_rise S p = np_affine 1 0.5 (np_div p (0.6 * S))"

definition moderate_rise :: "real \<Rightarrow> real \<Rightarrow> npfloat" where
  "moderate_rise S p = np_affine 1.5 2 (np_div (p - 0.6 * S) (0.3 * S))"

definition sharp_rise :: "real \<Rightarrow> real \<Rightarrow> npfloat" where
  "sharp_rise S p = np_affine 3.5 5 (np_div (p - 0.9 * S) (0.2 * S))"

definition lactate_at :: "real \<Rightarrow> real \<Rightarrow> npfloat" where
  "lactate_at S p =
     (if p < 0.6 * S then slow_rise S p
      else if p < 0.9 * S then moderate_rise S p
      else sharp_rise S p)"

definition lactate :: "real \<Rightarrow> npfloat list" where
  "lactate S = map (lactate_at S) (intensities S)"

section \<open>VO2 kinetics\<close>

text \<open>
  Lines 56 to 60.  The product of line 58 is rounded, since line 60 truncates it to an
  integer; the exponential of line 59 and its product are read exactly.
\<close>

definition time :: "int list" where
  "time = arange 0 300 5"

definition tau :: real where
  "tau = 40"

definition vo2_steady :: "real \<Rightarrow> real" where
  "vo2_steady v = fl64 (v * fl64 0.85)"

definition vo2_actual :: "real \<Rightarrow> real list" where
  "vo2_actual v = map (\<lambda>t. vo2_steady v * (1 - exp (- real_of_int t / tau))) time"

definition o2_demand :: "real \<Rightarrow> int list" where
  "o2_demand v = full_like time (vo2_steady v)"

section \<open>Fuel split\<close>

text \<open>Lines 68 to 75.\<close>

definition intensity_pct :: "real list" where
  "intensity_pct = linspace 50 100 11"

definition fat_pct :: "real list" where
  "fat_pct = map (\<lambda>x. np_clip (80 - 8 * (x - 50) / 5) 0 80) intensity_pct"

definition carb_pct :: "real list" where
  "carb_pct = map (\<lambda>f. 100 - f) fat_pct"

definition total_cal :: real where
  "total_cal = 10"

definition calories :: "real list" where
  "calories = map (\<lambda>x. total_cal * (x / 50)) intensity_pct"

definition fat_cal :: "real list" where
  "fat_cal = map2 (\<lambda>c f. c * f / 100) calories fat_pct"

definition carb_cal :: "real list" where
  "carb_cal = map2 (\<lambda>c f. c * f / 100) calories carb_pct"

section \<open>Heart rate zones\<close>

text \<open>
  Lines 83 to 93.  The dictionary keeps its insertion order, so it is a list of
  (name, (low, high)); the integer bounds are read as reals beside the float ones.
\<close>

definition zones :: "int \<Rightarrow> int \<Rightarrow> int \<Rightarrow> (string \<times> real \<times> real) list" where
  "zones LT1 LT2 HRmax =
     [(''Zone 1 (Easy/Recovery)'', (0, real_of_int LT1)),
      (''Zone 2 (Endurance)'', (real_of_int LT1, real_of_int (LT1 + LT2) / 2)),
      (''Zone 3 (Threshold)'', (real_of_int (LT1 + LT2) / 2, real_of_int LT2)),
      (''Zone 4 (Interval)'', (real_of_int LT2, 0.95 * real_of_int HRmax)),
      (''Zone 5 (Max Effort)'', (0.95 * real_of_int HRmax, real_of_int HRmax))]"

section \<open>The lactate function in float64 arithmetic\<close>










section \<open>The script as a whole\<close>

text \<open>
  One run of the script: the banners written by the validation block, then the
  curves and the zones, which lines 35 to 93 compute at the top level of the
  script, after and outside the \<^verbatim>\<open>if submitted:\<close> block.
\<close>

record analysis =
  banners :: "banner list"
  lactate_curve :: "real list \<times> npfloat list"
  vo2_curve :: "int list \<times> real list \<times> int list"
  fuel_curve :: "real list \<times> real list \<times> real list"
  zone_table :: "(string \<times> real \<times> real) list"

definition script :: "bool \<Rightarrow> profile \<Rightarrow> analysis" where
  "script submitted p =
     \<lparr> banners = validation submitted p,
       lactate_curve = (intensities (real_of_int (sprint_power p)),
                        lactate (real_of_int (sprint_power p))),
       vo2_curve = (time, vo2_actual (vo2max p), o2_demand (vo2max p)),
       fuel_curve = (intensity_pct, fat_cal, carb_cal),
       zone_table = zones (lt1_hr p) (lt2_hr p) (max_hr p) \<rparr>"

section \<open>Facts about the library functions\<close>

lemma length_time: "length time = 60"
  by (simp add: time_def arange_def)

lemma time_nth: "i < 60 \<Longrightarrow> time ! i = 5 * int i"
  by (simp add: time_def arange_def)

lemma intensity_pct_samples: "intensity_pct = [50, 55, 60, 65, 70, 75, 80, 85, 90, 95, 100]"
  by (simp add: intensity_pct_def linspace_def upt_conv_Cons)

lemma fat_pct_samples: "fat_pct = [80, 72, 64, 56, 48, 40, 32, 24, 16, 8, 0]"
  by (simp add: fat_pct_def intensity_pct_samples np_clip_def)

lemma intensities_zero: "intensities 0 = replicate 15 0"
  by (simp add: intensities_def linspace_def map_replicate_const)




section \<open>The lactate function for a positive sprint power\<close>

text \<open>
  With \<open>0 < S\<close> no divisor is zero, and in the scaled intensity \<open>x = p / S\<close> the three
  branches are three straight lines.
\<close>

lemma lactate_at_scaled:
  assumes "0 < S"
  shows "lactate_at S (x * S) =
     Fin (if x < 0.6 then 1 + x * (5 / 6)
          else if x < 0.9 then 1.5 + (x - 0.6) * (20 / 3)
          else 3.5 + (x - 0.9) * 25)"
  using assms
  by (simp add: lactate_at_def slow_rise_def moderate_rise_def sharp_rise_def np_div_def
      field_simps)

lemma lactate_at_fin:
  assumes "0 < S"
  shows "is_fin (lactate_at S p)"
proof -
  have "p = (p / S) * S"
    using assms by simp
  then obtain x where "p = x * S" ..
  thus ?thesis
    by (simp add: lactate_at_scaled [OF assms])
qed


lemma lactate_at_zero: "\<not> is_fin (lactate_at 0 p)"
  by (simp add: lactate_at_def slow_rise_def moderate_rise_def sharp_rise_def np_div_def)

lemma lactate_zero: "lactate 0 = replicate 15 NaN"
  by (simp add: lactate_def intensities_zero lactate_at_def sharp_rise_def np_div_def)

section \<open>Rounding to float64\<close>

text \<open>
  The exponent of the grid is fixed by the binade of the argument, so a rounding is
  evaluated by naming the exponent.
\<close>

lemma bitlen_scaled:
  fixes a :: real
  assumes e: "- int m \<le> e"
    and lo: "2 ^ j * 2 powi e \<le> a"
    and hi: "a < 2 ^ Suc j * 2 powi e"
  shows "bitlen \<lfloor>a * 2 ^ m\<rfloor> = int j + 1 + (e + int m)"
proof -
  define k where "k = nat (e + int m)"
  define N where "N = \<lfloor>a * 2 ^ m\<rfloor>"
  have "(2::real) powi e * 2 powi (int m) = 2 powi (e + int m)"
    by (simp add: power_int_add)
  also have "\<dots> = 2 ^ k"
    using e by (simp add: power_int_def k_def)
  finally have sc: "(2::real) powi e * 2 ^ m = 2 ^ k"
    by simp
  have "(2 ^ j * 2 powi e) * 2 ^ m \<le> a * 2 ^ m"
    using lo by (intro mult_right_mono) simp_all
  also have "(2 ^ j * 2 powi e) * 2 ^ m = (2::real) ^ (j + k)"
    by (simp only: mult.assoc sc power_add)
  finally have "real_of_int (2 ^ (j + k)) \<le> a * 2 ^ m"
    by simp
  hence N_lo: "2 ^ (j + k) \<le> N"
    unfolding N_def by (simp only: le_floor_iff)
  have "a * 2 ^ m < (2 ^ Suc j * 2 powi e) * 2 ^ m"
    using hi by (intro mult_strict_right_mono) simp_all
  also have "(2 ^ Suc j * 2 powi e) * 2 ^ m = (2::real) ^ (Suc j + k)"
    by (simp only: mult.assoc sc power_add)
  finally have "a * 2 ^ m < real_of_int (2 ^ (Suc j + k))"
    by simp
  hence N_hi: "N < 2 ^ (Suc j + k)"
    unfolding N_def by (simp only: floor_less_iff)
  have "bitlen N \<le> int (Suc j + k)"
    using N_hi by (simp only: bitlen_le_iff_power nat_int of_nat_0_le_iff simp_thms)
  moreover have "int (Suc j + k) \<le> bitlen N"
  proof -
    have "nat (int (Suc j + k)) - 1 = j + k"
      by (simp only: nat_int)
    thus ?thesis
      using N_lo by (simp only: bitlen_ge_iff_power simp_thms)
  qed
  ultimately have "bitlen N = int (Suc j + k)"
    by simp
  thus ?thesis
    using e by (simp add: N_def k_def)
qed

lemma ulp_exponent_eqI:
  assumes e: "- 1074 \<le> e"
    and lo: "2 ^ 52 * 2 powi e \<le> \<bar>x\<bar>"
    and hi: "\<bar>x\<bar> < 2 ^ 53 * 2 powi e"
  shows "ulp_exponent x = e"
proof -
  have "bitlen \<lfloor>\<bar>x\<bar> * 2 ^ 1074\<rfloor> = int 52 + 1 + (e + int 1074)"
    by (rule bitlen_scaled) (use assms in simp_all)
  thus ?thesis
    unfolding ulp_exponent_def using e by simp
qed

lemma fl64_eqI:
  assumes "- 1074 \<le> e"
    and "2 ^ 52 * 2 powi e \<le> \<bar>x\<bar>"
    and "\<bar>x\<bar> < 2 ^ 53 * 2 powi e"
    and "of_int (round_half_even (x / 2 powi e)) * 2 powi e = y"
  shows "fl64 x = y"
  using assms(4) by (simp add: fl64_def ulp_exponent_eqI [OF assms(1-3)])













section \<open>The oxygen curves\<close>

lemma fl64_085: "fl64 0.85 = 7656119366529843 / 9007199254740992"
  by (rule fl64_eqI [where e = "- 53"]) (simp_all add: round_half_even_def Let_def)

lemma vo2_steady_50: "vo2_steady 50 = 85 / 2"
  unfolding vo2_steady_def fl64_085
  by (rule fl64_eqI [where e = "- 47"]) (simp_all add: round_half_even_def Let_def)

lemma trunc_steady_50: "float_to_int64 (vo2_steady 50) = 42"
  by (simp add: float_to_int64_def vo2_steady_50 Let_def)

text \<open>
  The float \<^verbatim>\<open>21.176470588235293\<close> times \<^verbatim>\<open>0.85\<close> is just below 18 before rounding and
  is 18 as a float, which is what the conversion to an integer sees.
\<close>

lemma vo2_steady_rounds_up:
  "5960646565637421 / 281474976710656 * fl64 0.85 < 18
   \<and> vo2_steady (5960646565637421 / 281474976710656) = 18
   \<and> float_to_int64 (vo2_steady (5960646565637421 / 281474976710656)) = 18"
proof -
  have below: "5960646565637421 / 281474976710656 * fl64 0.85 < 18"
    unfolding fl64_085 by simp
  have rounded: "vo2_steady (5960646565637421 / 281474976710656) = 18"
    unfolding vo2_steady_def fl64_085
    by (rule fl64_eqI [where e = "- 48"]) (simp_all add: round_half_even_def Let_def)
  show ?thesis
    using below by (simp add: rounded float_to_int64_def)
qed

text \<open>The uptake formula stays below the float \<^verbatim>\<open>vo2_steady\<close> it approaches.\<close>

lemma vo2_actual_below_steady:
  "0 < vo2_steady v \<Longrightarrow> vo2_steady v * (1 - exp (- real_of_int t / tau)) < vo2_steady v"
  by simp

lemma exp_late_sample: "exp (- (59 / 8 :: real)) < 1 / 85"
proof -
  have "2 \<le> exp (1::real)"
    using exp_ge_add_one_self [of "1::real"] by simp
  hence "(2::real) ^ 7 \<le> exp 1 ^ 7"
    by (intro power_mono) simp_all
  moreover have "exp (7::real) = exp 1 ^ 7"
    using exp_of_nat_mult [of 7 "1::real"] by simp
  moreover have "exp (7::real) \<le> exp (59 / 8)"
    by simp
  ultimately have "128 \<le> exp (59 / 8 :: real)"
    by simp
  hence "inverse (exp (59 / 8 :: real)) \<le> inverse 128"
    by (intro le_imp_inverse_le) simp_all
  thus ?thesis
    by (simp add: exp_minus)
qed

section \<open>The float64 lactate function, branch by branch\<close>
















section \<open>The float64 samples\<close>















section \<open>Claims\<close>

text \<open>
  C1.  The claim: an input that breaks the profile invariant is rejected before any
  curve is generated, and no lactate, VO2 or fuel curve and no zones are produced.
  The script does otherwise.  For the submitted profile with the inverted thresholds
  \<open>lt1_hr = 165\<close>, \<open>lt2_hr = 140\<close> the validation block writes its error banner, and the
  run still builds the zone table (with zone 2 and zone 3 running backwards) and the
  15 lactate samples.
\<close>

theorem invalid_profile_still_computed:
  "banners (script True \<lparr>vo2max = 50, lt1_hr = 165, lt2_hr = 140, max_hr = 190, sprint_power = 800\<rparr>)
     = [St_error ''Ensure that LT1 HR < LT2 HR < Max HR for consistency.'']
   \<and> \<not> valid_profile \<lparr>vo2max = 50, lt1_hr = 165, lt2_hr = 140, max_hr = 190, sprint_power = 800\<rparr>
   \<and> zone_table (script True \<lparr>vo2max = 50, lt1_hr = 165, lt2_hr = 140, max_hr = 190, sprint_power = 800\<rparr>)
     = [(''Zone 1 (Easy/Recovery)'', (0, 165)),
        (''Zone 2 (Endurance)'', (165, 152.5)),
        (''Zone 3 (Threshold)'', (152.5, 140)),
        (''Zone 4 (Interval)'', (140, 180.5)),
        (''Zone 5 (Max Effort)'', (180.5, 190))]
   \<and> length (snd (lactate_curve (script True \<lparr>vo2max = 50, lt1_hr = 165, lt2_hr = 140, max_hr = 190, sprint_power = 800\<rparr>))) = 15
   \<and> hd (snd (lactate_curve (script True \<lparr>vo2max = 50, lt1_hr = 165, lt2_hr = 140, max_hr = 190, sprint_power = 800\<rparr>))) = Fin (4 / 3)"
  apply (simp add: script_def validation_def valid_profile_def zones_def)
  apply (simp add: lactate_def intensities_def linspace_def upt_conv_Cons lactate_at_def
      slow_rise_def np_div_def)
  done

text \<open>
  C2.  The claim: for every valid profile the zone boundaries form the strict chain
  \<open>lt1Hr < (lt1Hr + lt2Hr) / 2 < lt2Hr < 0.95 * maxHr < maxHr\<close>.
  The link \<open>lt2Hr < 0.95 * maxHr\<close> fails for the valid profile with \<open>lt2_hr = 189\<close> and
  \<open>max_hr = 190\<close>: zone 4 runs from 189 down to 180.5.
\<close>

theorem zone_chain_counterexample:
  "valid_profile \<lparr>vo2max = 50, lt1_hr = 140, lt2_hr = 189, max_hr = 190, sprint_power = 800\<rparr>
   \<and> zone_table (script True \<lparr>vo2max = 50, lt1_hr = 140, lt2_hr = 189, max_hr = 190, sprint_power = 800\<rparr>) ! 3
       = (''Zone 4 (Interval)'', (189, 180.5))
   \<and> \<not> sorted_wrt (<) (map (snd \<circ> snd)
        (zone_table (script True \<lparr>vo2max = 50, lt1_hr = 140, lt2_hr = 189, max_hr = 190, sprint_power = 800\<rparr>)))"
  by (simp add: valid_profile_def script_def zones_def)

text \<open>
  C2, amended.  For every valid profile the upper bounds of the five zones are
  \<open>lt1Hr\<close>, \<open>(lt1Hr + lt2Hr) / 2\<close>, \<open>lt2Hr\<close>, \<open>0.95 * maxHr\<close> and \<open>maxHr\<close>, with
  \<open>lt1Hr < (lt1Hr + lt2Hr) / 2 < lt2Hr < maxHr\<close> and \<open>0.95 * maxHr < maxHr\<close>; the
  whole chain is strict exactly when \<open>20 * lt2Hr < 19 * maxHr\<close>, which the
  validation does not ask for.
\<close>

theorem zone_chain_valid_profile:
  assumes "valid_profile p"
  shows "map (snd \<circ> snd) (zone_table (script submitted p)) =
           [real_of_int (lt1_hr p), real_of_int (lt1_hr p + lt2_hr p) / 2, real_of_int (lt2_hr p),
            0.95 * real_of_int (max_hr p), real_of_int (max_hr p)]
    \<and> real_of_int (lt1_hr p) < real_of_int (lt1_hr p + lt2_hr p) / 2
    \<and> real_of_int (lt1_hr p + lt2_hr p) / 2 < real_of_int (lt2_hr p)
    \<and> real_of_int (lt2_hr p) < real_of_int (max_hr p)
    \<and> 0.95 * real_of_int (max_hr p) < real_of_int (max_hr p)
    \<and> (sorted_wrt (<) (map (snd \<circ> snd) (zone_table (script submitted p)))
         \<longleftrightarrow> 20 * lt2_hr p < 19 * max_hr p)"
  using assms
  apply (simp add: valid_profile_def script_def zones_def)
  apply auto
  done

theorem zone_chain_valid_profile_witness:
  "valid_profile \<lparr>vo2max = 50, lt1_hr = 140, lt2_hr = 165, max_hr = 190, sprint_power = 800\<rparr>
   \<and> map (snd \<circ> snd)
        (zone_table (script True \<lparr>vo2max = 50, lt1_hr = 140, lt2_hr = 165, max_hr = 190, sprint_power = 800\<rparr>))
       = [140, 152.5, 165, 180.5, 190]
   \<and> sorted_wrt (<) (map (snd \<circ> snd)
        (zone_table (script True \<lparr>vo2max = 50, lt1_hr = 140, lt2_hr = 165, max_hr = 190, sprint_power = 800\<rparr>)))"
  using zone_chain_valid_profile
    [of "\<lparr>vo2max = 50, lt1_hr = 140, lt2_hr = 165, max_hr = 190, sprint_power = 800\<rparr>" True]
  by (simp add: valid_profile_def)

text \<open>
  C3.  The zone table has exactly five entries, in the fixed order and with the fixed
  names, with the bounds \<open>(0, LT1)\<close>, \<open>(LT1, (LT1 + LT2) / 2)\<close>,
  \<open>((LT1 + LT2) / 2, LT2)\<close>, \<open>(LT2, 0.95 * HRmax)\<close> and \<open>(0.95 * HRmax, HRmax)\<close>; a run
  of the script returns this table for its profile, and for the profile
  (50, 140, 165, 190, 800) zone 4 is (165, 180.5) and zone 5 is (180.5, 190).
\<close>

theorem zones_five_named_ranges:
  "length (zones a b c) = 5
   \<and> map fst (zones a b c) =
       [''Zone 1 (Easy/Recovery)'', ''Zone 2 (Endurance)'', ''Zone 3 (Threshold)'',
        ''Zone 4 (Interval)'', ''Zone 5 (Max Effort)'']
   \<and> map snd (zones a b c) =
       [(0, real_of_int a),
        (real_of_int a, (real_of_int a + real_of_int b) / 2),
        ((real_of_int a + real_of_int b) / 2, real_of_int b),
        (real_of_int b, 0.95 * real_of_int c),
        (0.95 * real_of_int c, real_of_int c)]
   \<and> zone_table (script submitted p) = zones (lt1_hr p) (lt2_hr p) (max_hr p)
   \<and> zone_table (script submitted
        \<lparr>vo2max = 50, lt1_hr = 140, lt2_hr = 165, max_hr = 190, sprint_power = 800\<rparr>) ! 3
       = (''Zone 4 (Interval)'', (165, 180.5))
   \<and> zone_table (script submitted
        \<lparr>vo2max = 50, lt1_hr = 140, lt2_hr = 165, max_hr = 190, sprint_power = 800\<rparr>) ! 4
       = (''Zone 5 (Max Effort)'', (180.5, 190))"
  by (simp add: zones_def script_def)

text \<open>
  C4.  The claim: every \<^verbatim>\<open>o2_demand\<close> sample equals \<open>0.85 * vo2max\<close>, and 42.5 for
  \<open>vo2max = 50\<close>.  The script fills an array shaped and typed like the integer array
  \<^verbatim>\<open>time\<close>, so for \<open>vo2max = 50\<close> the steady value is 42.5 and each of the 60 samples
  is 42.
\<close>

theorem o2_demand_truncated:
  "vo2_steady 50 = 42.5 \<and> o2_demand 50 = replicate 60 42"
proof -
  have "o2_demand 50 = replicate 60 42"
    by (simp add: o2_demand_def full_like_def trunc_steady_50 map_replicate_const length_time)
  moreover have "vo2_steady 50 = 42.5"
    by (simp add: vo2_steady_50)
  ultimately show ?thesis
    by (simp only: simp_thms)
qed

text \<open>
  C5.  The claim: \<open>vo2Actual(t) \<le> o2Demand(t)\<close> at every sample.  With the
  \<^verbatim>\<open>o2_demand\<close> array of the script this fails for \<open>vo2max = 50\<close> at the last sample,
  \<open>t = 295\<close>: the demand stored there is 42 and the uptake is above it.
\<close>

theorem vo2_actual_exceeds_o2_demand:
  "time ! 59 = 295 \<and> real_of_int (o2_demand 50 ! 59) < vo2_actual 50 ! 59"
proof -
  have t: "time ! 59 = 295"
    by (simp add: time_nth)
  have d: "o2_demand 50 ! 59 = 42"
    by (simp add: o2_demand_def full_like_def length_time trunc_steady_50)
  have a: "vo2_actual 50 ! 59 = 42.5 * (1 - exp (- (59 / 8)))"
    by (simp add: vo2_actual_def length_time t tau_def vo2_steady_50)
  show ?thesis
    using exp_late_sample by (simp add: t d a)
qed






text \<open>
  C8.  The fuel split has 11 samples over the intensities 50 to 100; at every sample
  \<open>fat_pct + carb_pct = 100\<close> and \<open>fat_cal + carb_cal = calories\<close>, and \<open>fat_pct\<close>
  does not increase while the intensity increases.
\<close>

theorem fuel_split_sums_and_order:
  "length intensity_pct = 11 \<and> intensity_pct ! 0 = 50 \<and> intensity_pct ! 10 = 100
   \<and> sorted_wrt (<) intensity_pct
   \<and> length fat_pct = 11 \<and> length calories = 11
   \<and> map2 (+) fat_pct carb_pct = replicate 11 100
   \<and> map2 (+) fat_cal carb_cal = calories
   \<and> sorted (rev fat_pct)"
proof -
  have sums: "map2 (+) fat_pct carb_pct = replicate 11 100"
    by (simp add: fat_pct_samples carb_pct_def eval_nat_numeral)
  have kcal: "map2 (+) fat_cal carb_cal = calories"
    by (simp add: fat_cal_def carb_cal_def calories_def total_cal_def carb_pct_def
        fat_pct_samples intensity_pct_samples)
  have order: "sorted (rev fat_pct)"
    by (simp add: fat_pct_samples)
  have xs: "sorted_wrt (<) intensity_pct"
    by (simp add: intensity_pct_samples)
  show ?thesis
    using sums kcal order xs
    by (simp add: intensity_pct_samples fat_pct_samples calories_def)
qed

text \<open>
  C10.  The lactate computation divides by \<open>0.6 * S\<close>, \<open>0.3 * S\<close> and \<open>0.2 * S\<close> with no
  guard.  For \<open>0 < S\<close> none of the three divisors is zero and every value of the
  function is a finite number.  For \<open>S = 0\<close> no value of the function is finite; all
  15 intensities are 0, each of them takes the last branch and divides 0 by 0, and
  a run of the script on a profile with sprint power 0 has 15 lactate samples that
  are all \<^verbatim>\<open>nan\<close>, whether the form was submitted or not.
\<close>

theorem lactate_total_iff_positive:
  "(0 < S \<longrightarrow> 0.6 * S \<noteq> 0 \<and> 0.3 * S \<noteq> 0 \<and> 0.2 * S \<noteq> 0 \<and> (\<forall>p. is_fin (lactate_at S p)))
   \<and> (\<forall>p. \<not> is_fin (lactate_at 0 p))
   \<and> intensities 0 = replicate 15 0
   \<and> lactate_at 0 0 = sharp_rise 0 0
   \<and> np_div (0 - 0.9 * 0) (0.2 * 0) = NaN
   \<and> snd (lactate_curve (script submitted (q\<lparr>sprint_power := 0\<rparr>))) = replicate 15 NaN"
proof -
  have last_branch: "lactate_at 0 0 = sharp_rise 0 0"
    by (simp add: lactate_at_def)
  have quotient: "np_div (0 - 0.9 * 0) (0.2 * 0) = NaN"
    by (simp add: np_div_def)
  show ?thesis
    using last_branch quotient
    by (simp add: lactate_at_fin lactate_at_zero intensities_zero script_def lactate_zero)
qed

theorem lactate_total_iff_positive_witness:
  "(0::real) < 800 \<and> is_fin (lactate_at 800 480) \<and> lactate_at 800 480 = Fin 1.5
   \<and> \<not> is_fin (lactate_at 0 0) \<and> lactate_at 0 0 = NaN
   \<and> snd (lactate_curve (script False
        \<lparr>vo2max = 0, lt1_hr = 0, lt2_hr = 0, max_hr = 0, sprint_power = 0\<rparr>)) = replicate 15 NaN"
  using lactate_total_iff_positive
    [of 800 False "\<lparr>vo2max = 0, lt1_hr = 0, lt2_hr = 0, max_hr = 0, sprint_power = 0\<rparr>"]
  by (simp add: lactate_at_def moderate_rise_def sharp_rise_def np_div_def)

end
